theory Spec2Isabelle
  imports Main
begin

section \<open>Mirror-table validation (bench/workgen/validate\_mirror\_tables.py)\<close>

text \<open>
  A shallow embedding of \<^verbatim>\<open>validate_mirror_tables.py\<close>. Python strings are
  \<^typ>\<open>string\<close> (a character is a code point below 256), an exception is the name of
  its class, and every function that can raise returns a sum whose left side is the
  exception that leaves it. The storage-engine client and the comparison utility are not
  part of the script; what they answer is a parameter of the model.
\<close>

subsection \<open>Python string operations used by the script\<close>

type_synonym exn = string

abbreviation dquote :: char where
  "dquote \<equiv> CHR 0x22"

abbreviation squote :: char where
  "squote \<equiv> CHR 0x27"

abbreviation backslash :: char where
  "backslash \<equiv> CHR 0x5C"

text \<open>\<^verbatim>\<open>s.startswith(p)\<close>.\<close>

definition startswith :: "string \<Rightarrow> string \<Rightarrow> bool" where
  "startswith s p = (take (length p) s = p)"

text \<open>
  \<^verbatim>\<open>s.split(sep)\<close> for a separator of one character: every occurrence splits, so
  the result has one more piece than there are separators and is never empty.
\<close>

fun split_on :: "char \<Rightarrow> string \<Rightarrow> string list" where
  "split_on sep [] = [[]]"
| "split_on sep (c # cs) =
     (if c = sep then [] # split_on sep cs
      else (case split_on sep cs of
              [] \<Rightarrow> [[c]]
            | p # ps \<Rightarrow> (c # p) # ps))"

text \<open>
  \<^verbatim>\<open>s.strip()\<close>: the characters below 256 for which \<^verbatim>\<open>str.isspace\<close> holds are
  removed from both ends.
\<close>

definition isspace :: "char \<Rightarrow> bool" where
  "isspace c = (of_char c \<in> {9, 10, 11, 12, 13, 28, 29, 30, 31, 32, 133, 160 :: nat})"

definition strip :: "string \<Rightarrow> string" where
  "strip s = rev (dropWhile isspace (rev (dropWhile isspace s)))"

text \<open>\<^verbatim>\<open>str(n)\<close> for a non-negative integer.\<close>

definition digit_char :: "nat \<Rightarrow> char" where
  "digit_char d = char_of (48 + d)"

function str_nat :: "nat \<Rightarrow> string" where
  "str_nat n = (if n < 10 then [digit_char n] else str_nat (n div 10) @ [digit_char (n mod 10)])"
  by pat_completeness auto
termination
  by (relation "measure (\<lambda>n. n)") auto

declare str_nat.simps [simp del]

text \<open>
  \<^verbatim>\<open>repr(s)\<close> of a string, which is how an f-string renders the elements of a list:
  single quotes unless the string holds a single quote and no double quote; the quote in
  use and the backslash are escaped, tab, newline and carriage return are written
  \<^verbatim>\<open>\t \n \r\<close>, and a character that is not printable is written \<^verbatim>\<open>\xNN\<close>.
\<close>

definition isprintable :: "char \<Rightarrow> bool" where
  "isprintable c =
     (let n = (of_char c :: nat) in (32 \<le> n \<and> n < 127) \<or> (161 \<le> n \<and> n \<noteq> 173))"

definition hex_digit :: "nat \<Rightarrow> char" where
  "hex_digit d = (if d < 10 then char_of (48 + d) else char_of (87 + d))"

definition repr_char :: "char \<Rightarrow> char \<Rightarrow> string" where
  "repr_char quote c =
     (if c = quote \<or> c = backslash then [backslash, c]
      else if c = CHR 0x09 then [backslash, CHR ''t'']
      else if c = CHR 0x0A then [backslash, CHR ''n'']
      else if c = CHR 0x0D then [backslash, CHR ''r'']
      else if isprintable c then [c]
      else [backslash, CHR ''x'', hex_digit (of_char c div 16), hex_digit (of_char c mod 16)])"

definition repr_str :: "string \<Rightarrow> string" where
  "repr_str s =
     (let quote = (if squote \<in> set s \<and> dquote \<notin> set s then dquote else squote)
      in [quote] @ concat (map (repr_char quote) s) @ [quote])"

text \<open>\<^verbatim>\<open>str(item)\<close> of a list of two strings, as \<^verbatim>\<open>{item}\<close> prints it.\<close>

definition str_pair :: "string \<times> string \<Rightarrow> string" where
  "str_pair item = ''['' @ repr_str (fst item) @ '', '' @ repr_str (snd item) @ '']''"

text \<open>\<^verbatim>\<open>str(v)\<close> of a value that is \<^verbatim>\<open>None\<close> or a string.\<close>

definition str_opt :: "string option \<Rightarrow> string" where
  "str_opt v = (case v of None \<Rightarrow> ''None'' | Some s \<Rightarrow> s)"

subsection \<open>The application-metadata pattern\<close>

text \<open>
  \<^verbatim>\<open>re.findall('app_metadata="([^"]*)"', metadata)\<close>. A match at the front of a string
  is the literal \<^verbatim>\<open>app_metadata="\<close>, then every character up to the next double quote
  (the group), then that quote; without a closing quote there is no match there.
  \<open>match_here\<close> returns the group and what follows the match.
\<close>

definition app_metadata_literal :: string where
  "app_metadata_literal = ''app_metadata='' @ [dquote]"

definition match_here :: "string \<Rightarrow> (string \<times> string) option" where
  "match_here s =
     (if startswith s app_metadata_literal then
        (let rest = drop (length app_metadata_literal) s in
         case dropWhile (\<lambda>c. c \<noteq> dquote) rest of
           [] \<Rightarrow> None
         | q # after \<Rightarrow> Some (takeWhile (\<lambda>c. c \<noteq> dquote) rest, after))
      else None)"

text \<open>
  \<open>findall\<close> scans from the left: a match contributes its group and the scan goes on
  after the match, otherwise it goes on one character further.
\<close>

function findall :: "string \<Rightarrow> string list" where
  "findall [] = []"
| "findall (c # cs) =
     (case match_here (c # cs) of
        Some (g, after) \<Rightarrow> g # findall after
      | None \<Rightarrow> findall cs)"
  by pat_completeness auto
termination
proof (relation "measure length")
  show "wf (measure length)" by simp
next
  fix c :: char and cs x2 x y
  assume m: "match_here (c # cs) = Some x2" and x: "(x, y) = x2"
  from m x obtain q where
    d: "dropWhile (\<lambda>c. c \<noteq> dquote) (drop (length app_metadata_literal) (c # cs)) = q # y"
    by (auto simp: match_here_def Let_def split: if_splits list.splits)
  have "length (q # y) \<le> length (drop (length app_metadata_literal) (c # cs))"
    unfolding d[symmetric] by (rule length_dropWhile_le)
  then show "(y, c # cs) \<in> measure length" by simp
next
  fix c :: char and cs
  show "(cs, c # cs) \<in> measure length" by simp
qed

declare findall.simps [simp del]

subsection \<open>The storage-engine client\<close>

text \<open>
  \<^verbatim>\<open>metadata_cursor[key]\<close> returns the record stored under the key or raises. The
  exceptions the client raises are instances of \<^verbatim>\<open>Exception\<close>; the model keeps the
  name of their class, which is all the script looks at.
\<close>

datatype lookup_result = Value string | Raises exn

text \<open>
  Forward iteration over a positioned cursor: a finite run of (key, value) items that
  ends with the end of the data or with an exception of the client.
\<close>

datatype iteration = Stop | Yield string string iteration | Fails exn

text \<open>
  A connection, as far as the script uses it: whether \<^verbatim>\<open>search_near\<close> raises after
  \<^verbatim>\<open>set_key('file:')\<close> on a cursor over \<^verbatim>\<open>metadata:\<close>, what iterating that cursor
  yields, and what a keyed lookup in \<^verbatim>\<open>metadata:\<close> answers. Opening and closing
  sessions and cursors and \<^verbatim>\<open>set_key\<close> return normally.
\<close>

record connection =
  search_near :: "exn option"
  iterate :: iteration
  lookup :: "string \<Rightarrow> lookup_result"

text \<open>What a function does to the outside, in the order it does it.\<close>

datatype event =
    Connection_open string
  | Connection_close
  | Session_open
  | Session_close
  | Cursor_open
  | Cursor_close
  | Compare string string
  | Print string

subsection \<open>\<^verbatim>\<open>get_mirror_file\<close>\<close>

text \<open>
  The generator \<^verbatim>\<open>for a, b in (element.split('=') for element in ...)\<close>: an element
  whose split does not have exactly two parts cannot be unpacked into \<^verbatim>\<open>a, b\<close>, which
  raises \<^verbatim>\<open>ValueError\<close> at the first such element.
\<close>

fun unpack_elements :: "string list \<Rightarrow> exn + (string \<times> string) list" where
  "unpack_elements [] = Inr []"
| "unpack_elements (element # elements) =
     (case split_on CHR ''='' element of
        [a, b] \<Rightarrow>
          (case unpack_elements elements of
             Inl e \<Rightarrow> Inl e
           | Inr kvs \<Rightarrow> Inr ((strip a, strip b) # kvs))
      | _ \<Rightarrow> Inl ''ValueError'')"

text \<open>\<^verbatim>\<open>dict(pairs)\<close>: a key given twice keeps its last value.\<close>

definition dict :: "(string \<times> string) list \<Rightarrow> (string \<rightharpoonup> string)" where
  "dict kvs = map_of (rev kvs)"

text \<open>
  \<^verbatim>\<open>get_mirror_file(metadata_cursor, filename)\<close>. When the lookup raises an exception
  whose class is not named \<^verbatim>\<open>KeyError\<close> the handler falls through with the local
  \<^verbatim>\<open>metadata\<close> never assigned, and its use in \<^verbatim>\<open>re.findall\<close> raises
  \<^verbatim>\<open>UnboundLocalError\<close>. \<^verbatim>\<open>mirror.split(':')[1]\<close> raises \<^verbatim>\<open>IndexError\<close> when
  the value holds no colon.
\<close>

definition get_mirror_file :: "(string \<Rightarrow> lookup_result) \<Rightarrow> string \<Rightarrow> exn + string option" where
  "get_mirror_file metadata_cursor filename =
     (case metadata_cursor filename of
        Raises e \<Rightarrow> (if e = ''KeyError'' then Inr None else Inl ''UnboundLocalError'')
      | Value metadata \<Rightarrow>
          (case findall metadata of
             [] \<Rightarrow> Inr None
           | r0 # _ \<Rightarrow>
               (case unpack_elements (split_on CHR '','' r0) of
                  Inl e \<Rightarrow> Inl e
                | Inr kvs \<Rightarrow>
                    (let app_metadata = dict kvs in
                     if app_metadata ''workgen_dynamic_table'' = Some ''true'' \<and>
                        app_metadata ''workgen_table_mirror'' \<noteq> None
                     then (case app_metadata ''workgen_table_mirror'' of
                             None \<Rightarrow> Inr None
                           | Some mirror \<Rightarrow>
                               (case split_on CHR '':'' mirror of
                                  _ # m # _ \<Rightarrow> Inr (Some m)
                                | _ \<Rightarrow> Inl ''IndexError''))
                     else Inr None))))"

subsection \<open>\<^verbatim>\<open>get_mirrors\<close>\<close>

text \<open>The location \<^verbatim>\<open>f'{db_dir}/table:{filename}'\<close>.\<close>

definition table_uri :: "string \<Rightarrow> string \<Rightarrow> string" where
  "table_uri db_dir filename = db_dir @ ''/table:'' @ filename"

text \<open>
  The loop of \<^verbatim>\<open>get_mirrors\<close> over \<^verbatim>\<open>db_files\<close>, with the set
  \<^verbatim>\<open>db_files_remaining\<close> and the list \<^verbatim>\<open>mirrors\<close> as its state; \<open>resolve\<close> is the
  call of \<^verbatim>\<open>get_mirror_file\<close> on the metadata cursor. Both \<^verbatim>\<open>remove\<close> calls are
  guarded by a membership test, so neither raises. A mirror name that is \<^verbatim>\<open>None\<close> or
  the empty string is false in the test \<^verbatim>\<open>if mirror_filename and ...\<close>. An exception
  of \<open>resolve\<close> leaves the loop.
\<close>

fun get_mirrors_loop ::
  "(string \<Rightarrow> exn + string option) \<Rightarrow> string \<Rightarrow> string list \<Rightarrow> string set \<Rightarrow>
   (string \<times> string) list \<Rightarrow> exn + (string \<times> string) list" where
  "get_mirrors_loop resolve db_dir [] db_files_remaining mirrors = Inr mirrors"
| "get_mirrors_loop resolve db_dir (filename # db_files) db_files_remaining mirrors =
     (if filename \<notin> db_files_remaining
      then get_mirrors_loop resolve db_dir db_files db_files_remaining mirrors
      else
        (case resolve (''table:'' @ filename) of
           Inl e \<Rightarrow> Inl e
         | Inr mirror_filename \<Rightarrow>
             (case mirror_filename of
                Some m \<Rightarrow>
                  (if m \<noteq> [] \<and> m \<in> db_files_remaining - {filename}
                   then get_mirrors_loop resolve db_dir db_files
                          (db_files_remaining - {filename} - {m})
                          (mirrors @ [(table_uri db_dir filename, table_uri db_dir m)])
                   else get_mirrors_loop resolve db_dir db_files
                          (db_files_remaining - {filename}) mirrors)
              | None \<Rightarrow>
                  get_mirrors_loop resolve db_dir db_files
                    (db_files_remaining - {filename}) mirrors)))"

text \<open>
  \<^verbatim>\<open>get_mirrors(connection, db_dir, db_files)\<close>: a session and a metadata cursor are
  opened, the loop runs, and both are closed after it. Nothing catches an exception of the
  loop, so on that path the two \<^verbatim>\<open>close\<close> calls are not reached.
\<close>

definition get_mirrors ::
  "connection \<Rightarrow> string \<Rightarrow> string list \<Rightarrow> event list \<times> (exn + (string \<times> string) list)" where
  "get_mirrors connection db_dir db_files =
     (case get_mirrors_loop (get_mirror_file (lookup connection)) db_dir db_files
             (set db_files) [] of
        Inl e \<Rightarrow> ([Session_open, Cursor_open], Inl e)
      | Inr mirrors \<Rightarrow> ([Session_open, Cursor_open, Cursor_close, Session_close], Inr mirrors))"

subsection \<open>\<^verbatim>\<open>get_wiredtiger_db_files\<close>\<close>

text \<open>
  The loop \<^verbatim>\<open>for k,_ in c\<close>: it stops at the first key that does not start with
  \<^verbatim>\<open>file:\<close>, skips the keys that start with \<^verbatim>\<open>file:WiredTiger\<close>, and appends
  \<^verbatim>\<open>k[len(prefix):-3]\<close> for the others.
\<close>

fun scan_loop :: "iteration \<Rightarrow> string list \<Rightarrow> exn + string list" where
  "scan_loop Stop files = Inr files"
| "scan_loop (Fails e) files = Inl e"
| "scan_loop (Yield k v rest) files =
     (if \<not> startswith k ''file:'' then Inr files
      else if startswith k ''file:WiredTiger'' then scan_loop rest files
      else scan_loop rest (files @ [drop (length ''file:'') (take (length k - 3) k)]))"

text \<open>
  \<^verbatim>\<open>get_wiredtiger_db_files(connection)\<close>. The two \<^verbatim>\<open>close\<close> calls follow the loop
  and no handler surrounds it, so an exception of \<^verbatim>\<open>search_near\<close> or of the iteration
  leaves the function before them.
\<close>

definition get_wiredtiger_db_files :: "connection \<Rightarrow> event list \<times> (exn + string list)" where
  "get_wiredtiger_db_files connection =
     (case search_near connection of
        Some e \<Rightarrow> ([Session_open, Cursor_open], Inl e)
      | None \<Rightarrow>
          (case scan_loop (iterate connection) [] of
             Inl e \<Rightarrow> ([Session_open, Cursor_open], Inl e)
           | Inr files \<Rightarrow> ([Session_open, Cursor_open, Cursor_close, Session_close], Inr files)))"

subsection \<open>\<^verbatim>\<open>main\<close>\<close>

text \<open>
  How a call of the comparison utility ends: it returns a value, it raises
  \<^verbatim>\<open>SystemExit\<close> with a code (\<open>None\<close> for \<^verbatim>\<open>sys.exit()\<close> without one), or it raises
  another exception.
\<close>

datatype ending = Returns "string option" | SystemExit "int option" | Raised exn

text \<open>
  The two imported collaborators: \<^verbatim>\<open>wiredtiger_open(db_dir, 'readonly')\<close>, and
  \<^verbatim>\<open>wiredtiger_compare_uri(item)\<close>, which answers with the text it writes to standard
  output and the way it ends.
\<close>

record world =
  wiredtiger_open :: "string \<Rightarrow> exn + connection"
  wiredtiger_compare_uri :: "string \<times> string \<Rightarrow> string \<times> ending"

text \<open>How the process ends: \<^verbatim>\<open>sys.exit(status)\<close>, or an exception nobody caught.\<close>

datatype outcome = Exit int | Uncaught exn

text \<open>\<^verbatim>\<open>usage_exit()\<close>.\<close>

definition usage_exit :: "event list \<times> outcome" where
  "usage_exit =
     ([Print ''Usage: python3 validate_mirror_tables database_dir'',
       Print ''  database_dir is a POSIX pathname to a WiredTiger home directory''],
      Exit 1)"

text \<open>
  The loop \<^verbatim>\<open>for item in mirrors\<close> of \<^verbatim>\<open>main\<close>, with \<^verbatim>\<open>failure_count\<close> as its
  state. The utility runs with standard output redirected to \<^verbatim>\<open>os.devnull\<close>, so the
  text it writes appears nowhere. The local \<^verbatim>\<open>stdout\<close> is set to \<^verbatim>\<open>None\<close> before the
  call and assigned only when the call returns; in the handler of \<^verbatim>\<open>SystemExit\<close> it
  still is \<^verbatim>\<open>None\<close>. Only \<^verbatim>\<open>SystemExit\<close> is caught.
\<close>

fun main_loop ::
  "(string \<times> string \<Rightarrow> string \<times> ending) \<Rightarrow> (string \<times> string) list \<Rightarrow> nat \<Rightarrow>
   event list \<times> (exn + nat)" where
  "main_loop compare_uri [] failure_count = ([], Inr failure_count)"
| "main_loop compare_uri (item # mirrors) failure_count =
     (let stdout = None in
      case snd (compare_uri item) of
        Returns v \<Rightarrow>
          (case main_loop compare_uri mirrors failure_count of
             (t, r) \<Rightarrow> (Compare (fst item) (snd item) # t, r))
      | SystemExit code \<Rightarrow>
          (if code \<noteq> Some 0
           then (case main_loop compare_uri mirrors (failure_count + 1) of
                   (t, r) \<Rightarrow>
                     (Compare (fst item) (snd item) #
                      Print (''Mirror mismatch '' @ str_pair item @ '': '' @ str_opt stdout) # t, r))
           else (case main_loop compare_uri mirrors failure_count of
                   (t, r) \<Rightarrow> (Compare (fst item) (snd item) # t, r)))
      | Raised e \<Rightarrow> ([Compare (fst item) (snd item)], Inl e))"

text \<open>
  \<^verbatim>\<open>main(sysargs)\<close>. The connection is closed after \<^verbatim>\<open>get_mirrors\<close> returns and
  before the loop over the pairs; an exception of the scan or of the pair collection
  leaves \<^verbatim>\<open>main\<close> before \<^verbatim>\<open>connection.close()\<close>.
\<close>

definition main :: "string list \<Rightarrow> world \<Rightarrow> event list \<times> outcome" where
  "main sysargs w =
     (if length sysargs \<noteq> 1 then usage_exit
      else
        (let db_dir = sysargs ! 0 in
         case wiredtiger_open w db_dir of
           Inl e \<Rightarrow> ([], Uncaught e)
         | Inr connection \<Rightarrow>
             (case get_wiredtiger_db_files connection of
                (t1, Inl e) \<Rightarrow> (Connection_open db_dir # t1, Uncaught e)
              | (t1, Inr db_files) \<Rightarrow>
                  (case get_mirrors connection db_dir db_files of
                     (t2, Inl e) \<Rightarrow> (Connection_open db_dir # t1 @ t2, Uncaught e)
                   | (t2, Inr mirrors) \<Rightarrow>
                       (case main_loop (wiredtiger_compare_uri w) mirrors 0 of
                          (t3, Inl e) \<Rightarrow>
                            (Connection_open db_dir # t1 @ t2 @ [Connection_close] @ t3,
                             Uncaught e)
                        | (t3, Inr failure_count) \<Rightarrow>
                            (Connection_open db_dir # t1 @ t2 @ [Connection_close] @ t3 @
                             [Print (if failure_count = 0
                                then ''Successfully validated '' @ str_nat (length mirrors) @
                                     '' table mirrors in database directory '' @
                                     [squote] @ db_dir @ [squote] @ ''.''
                                else ''Mirrored table validation failed for '' @
                                     str_nat failure_count @ '' of '' @
                                     str_nat (length mirrors) @
                                     '' table mirrors in database directory '' @
                                     [squote] @ db_dir @ [squote] @ ''.'')],
                             Exit (if failure_count > 0 then 1 else 0)))))))"

subsection \<open>Notions the properties are stated with\<close>

text \<open>
  The metadata of a table lacks \<^verbatim>\<open>workgen_dynamic_table=true\<close> or lacks a
  \<^verbatim>\<open>workgen_table_mirror\<close> entry, read on the dictionary \<^verbatim>\<open>get_mirror_file\<close>
  builds from the table's record. A table with no record, with no quoted application
  metadata, or with application metadata that does not parse has neither entry.
\<close>

definition lacks_mirror_entry :: "lookup_result \<Rightarrow> bool" where
  "lacks_mirror_entry r =
     (case r of
        Raises e \<Rightarrow> True
      | Value metadata \<Rightarrow>
          (case findall metadata of
             [] \<Rightarrow> True
           | r0 # _ \<Rightarrow>
               (case unpack_elements (split_on CHR '','' r0) of
                  Inl e \<Rightarrow> True
                | Inr kvs \<Rightarrow>
                    dict kvs ''workgen_dynamic_table'' \<noteq> Some ''true'' \<or>
                    dict kvs ''workgen_table_mirror'' = None)))"

text \<open>The sides of a pair list, base before mirror, pair after pair.\<close>

definition pair_sides :: "(string \<times> string) list \<Rightarrow> string list" where
  "pair_sides mirrors = concat (map (\<lambda>(base, mirror). [base, mirror]) mirrors)"

text \<open>
  The comparison of a pair signals a mismatch: it ends with \<^verbatim>\<open>SystemExit\<close> and a
  code that is not \<^verbatim>\<open>0\<close>.
\<close>

definition signals_mismatch :: "(string \<times> string \<Rightarrow> string \<times> ending) \<Rightarrow> string \<times> string \<Rightarrow> bool" where
  "signals_mismatch compare_uri item =
     (case snd (compare_uri item) of SystemExit code \<Rightarrow> code \<noteq> Some 0 | _ \<Rightarrow> False)"

text \<open>Events on sessions and cursors, and events of the validation of the pairs.\<close>

definition is_scan_event :: "event \<Rightarrow> bool" where
  "is_scan_event e = (e \<in> {Session_open, Session_close, Cursor_open, Cursor_close})"

definition is_validation_event :: "event \<Rightarrow> bool" where
  "is_validation_event e = (case e of Compare b m \<Rightarrow> True | Print l \<Rightarrow> True | _ \<Rightarrow> False)"

text \<open>What happens after the connection is closed.\<close>

definition after_close :: "event list \<Rightarrow> event list" where
  "after_close t = tl (dropWhile (\<lambda>e. e \<noteq> Connection_close) t)"

subsection \<open>Example catalogs\<close>

text \<open>
  The record of a table that Workgen created with a mirror, the record of a table with no
  application metadata, and a record whose application metadata has an element without
  \<^verbatim>\<open>=\<close>.
\<close>

definition orders_metadata :: string where
  "orders_metadata =
     ''access_pattern_hint=none,app_metadata='' @ [dquote] @
     ''workgen_dynamic_table=true,workgen_table_mirror=table:orders_mirror'' @ [dquote] @
     '',colgroups=,columns=,key_format=S,value_format=S''"

definition plain_metadata :: string where
  "plain_metadata = ''app_metadata=,colgroups=,columns=,key_format=S,value_format=S''"

definition malformed_metadata :: string where
  "malformed_metadata =
     ''app_metadata='' @ [dquote] @ ''workgen_dynamic_table'' @ [dquote] @ '',key_format=S''"

text \<open>
  A catalog with \<^verbatim>\<open>orders\<close> and its mirror, one with \<^verbatim>\<open>orders\<close> alone (the mirror
  was dropped), and one whose cursor fails while it is positioned.
\<close>

definition mirrored_catalog :: connection where
  "mirrored_catalog =
     \<lparr> search_near = None,
       iterate = Yield ''file:WiredTiger.wt'' [] (Yield ''file:orders.wt'' []
                   (Yield ''file:orders_mirror.wt'' [] (Yield ''table:orders'' [] Stop))),
       lookup = (\<lambda>key. if key = ''table:orders'' then Value orders_metadata
                        else if key = ''table:orders_mirror'' then Value plain_metadata
                        else Raises ''KeyError'') \<rparr>"

definition orphan_catalog :: connection where
  "orphan_catalog =
     \<lparr> search_near = None,
       iterate = Yield ''file:WiredTiger.wt'' [] (Yield ''file:orders.wt'' []
                   (Yield ''table:orders'' [] Stop)),
       lookup = (\<lambda>key. if key = ''table:orders'' then Value orders_metadata
                        else Raises ''KeyError'') \<rparr>"


text \<open>
  A world in which every directory opens to the given catalog and every comparison writes
  the same text and ends the same way.
\<close>

definition example_world :: "connection \<Rightarrow> string \<Rightarrow> ending \<Rightarrow> world" where
  "example_world catalog text how =
     \<lparr> wiredtiger_open = (\<lambda>db_dir. Inr catalog),
       wiredtiger_compare_uri = (\<lambda>item. (text, how)) \<rparr>"

text \<open>
  The record of a table that Workgen created with the given mirror, and a catalog in
  which pairs and stranded tables alternate: \<^verbatim>\<open>items\<close> and \<^verbatim>\<open>users\<close> have their
  mirrors, the mirror of \<^verbatim>\<open>orders\<close> was dropped, and \<^verbatim>\<open>stock\<close> names the mirror of
  \<^verbatim>\<open>items\<close>.
\<close>

definition mirror_record :: "string \<Rightarrow> string" where
  "mirror_record mirror =
     ''access_pattern_hint=none,app_metadata='' @ [dquote] @
     ''workgen_dynamic_table=true,workgen_table_mirror=table:'' @ mirror @ [dquote] @
     '',colgroups=,columns=,key_format=S,value_format=S''"

definition stranded_catalog :: connection where
  "stranded_catalog =
     \<lparr> search_near = None,
       iterate = Yield ''file:WiredTiger.wt'' [] (Yield ''file:items.wt'' []
                   (Yield ''file:items_mirror.wt'' [] (Yield ''file:orders.wt'' []
                   (Yield ''file:stock.wt'' [] (Yield ''file:users.wt'' []
                   (Yield ''file:users_mirror.wt'' [] (Yield ''table:items'' [] Stop))))))),
       lookup = (\<lambda>key. if key = ''table:items'' then Value (mirror_record ''items_mirror'')
                        else if key = ''table:items_mirror'' then Value (mirror_record ''items'')
                        else if key = ''table:orders'' then Value (mirror_record ''orders_mirror'')
                        else if key = ''table:stock'' then Value (mirror_record ''items_mirror'')
                        else if key = ''table:users'' then Value (mirror_record ''users_mirror'')
                        else if key = ''table:users_mirror'' then Value (mirror_record ''users'')
                        else Raises ''KeyError'') \<rparr>"

section \<open>Properties\<close>

subsection \<open>Helper lemmas\<close>

lemma unpack_elements_Inl:
  "(unpack_elements elements = Inl e) =
   (e = ''ValueError'' \<and> (\<exists>element\<in>set elements. length (split_on CHR ''='' element) \<noteq> 2))"
proof (induction elements)
  case Nil
  show ?case by simp
next
  case (Cons element elements)
  show ?case
  proof (cases "length (split_on CHR ''='' element) = 2")
    case True
    then obtain a b where ab: "split_on CHR ''='' element = [a, b]"
      by (auto simp: length_Suc_conv numeral_2_eq_2)
    show ?thesis using Cons.IH ab by (auto split: sum.splits)
  next
    case False
    then have "unpack_elements (element # elements) = Inl ''ValueError''"
      by (auto split: list.splits)
    with False show ?thesis by auto
  qed
qed

lemma get_mirror_file_Some_has_entry:
  "get_mirror_file metadata_cursor key = Inr (Some n) \<Longrightarrow>
   \<not> lacks_mirror_entry (metadata_cursor key)"
  by (auto simp: get_mirror_file_def lacks_mirror_entry_def Let_def
           split: lookup_result.splits list.splits sum.splits if_splits option.splits)

lemma table_uri_inject [simp]: "(table_uri db_dir a = table_uri db_dir b) = (a = b)"
  by (simp add: table_uri_def)

lemma pair_sides_append [simp]: "pair_sides (xs @ ys) = pair_sides xs @ pair_sides ys"
  by (simp add: pair_sides_def)

lemma pair_sides_single [simp]: "pair_sides [(b, m)] = [b, m]"
  by (simp add: pair_sides_def)

text \<open>
  The invariant of the loop of \<^verbatim>\<open>get_mirrors\<close>: the sides emitted so far are pairwise
  different and none of them is the location of a name still in the remaining set.
\<close>

lemma get_mirrors_loop_distinct:
  "get_mirrors_loop resolve db_dir db_files remaining acc = Inr mirrors \<Longrightarrow>
   distinct (pair_sides acc) \<Longrightarrow>
   set (pair_sides acc) \<inter> table_uri db_dir ` remaining = {} \<Longrightarrow>
   distinct (pair_sides mirrors)"
proof (induction db_files arbitrary: remaining acc)
  case Nil
  then show ?case by simp
next
  case (Cons filename db_files)
  show ?case
  proof (cases "filename \<in> remaining")
    case False
    with Cons.prems have "get_mirrors_loop resolve db_dir db_files remaining acc = Inr mirrors"
      by simp
    then show ?thesis using Cons.prems(2,3) by (rule Cons.IH)
  next
    case True
    then obtain r where r: "resolve (''table:'' @ filename) = Inr r"
      using Cons.prems(1) by (cases "resolve (''table:'' @ filename)") auto
    have smaller: "set (pair_sides acc) \<inter> table_uri db_dir ` (remaining - {filename}) = {}"
      using Cons.prems(3) by auto
    show ?thesis
    proof (cases "\<exists>m. r = Some m \<and> m \<noteq> [] \<and> m \<in> remaining - {filename}")
      case False
      with True r Cons.prems(1)
      have "get_mirrors_loop resolve db_dir db_files (remaining - {filename}) acc = Inr mirrors"
        by (auto split: option.splits if_splits)
      then show ?thesis using Cons.prems(2) smaller by (rule Cons.IH)
    next
      case yes: True
      then obtain m where m: "r = Some m" "m \<noteq> []" "m \<in> remaining" "m \<noteq> filename"
        by auto
      let ?acc = "acc @ [(table_uri db_dir filename, table_uri db_dir m)]"
      from True r m Cons.prems(1)
      have run: "get_mirrors_loop resolve db_dir db_files (remaining - {filename} - {m}) ?acc
                 = Inr mirrors"
        by simp
      have fresh: "table_uri db_dir filename \<notin> set (pair_sides acc)"
                  "table_uri db_dir m \<notin> set (pair_sides acc)"
        using Cons.prems(3) True m(3) by auto
      have d: "distinct (pair_sides ?acc)"
        using Cons.prems(2) fresh m(4) by simp
      have i: "set (pair_sides ?acc) \<inter> table_uri db_dir ` (remaining - {filename} - {m}) = {}"
        using Cons.prems(3) by auto
      show ?thesis using run d i by (rule Cons.IH)
    qed
  qed
qed

text \<open>
  Where an emitted pair comes from: it was there before, or its base is a remaining name
  that \<open>resolve\<close> maps to its mirror, itself a remaining name.
\<close>

lemma get_mirrors_loop_origin:
  "get_mirrors_loop resolve db_dir db_files remaining acc = Inr mirrors \<Longrightarrow>
   (b, m) \<in> set mirrors \<Longrightarrow>
   (b, m) \<in> set acc \<or>
   (\<exists>f n. b = table_uri db_dir f \<and> m = table_uri db_dir n \<and>
          resolve (''table:'' @ f) = Inr (Some n) \<and> f \<in> remaining \<and> n \<in> remaining)"
proof (induction db_files arbitrary: remaining acc)
  case Nil
  then show ?case by simp
next
  case (Cons filename db_files)
  show ?case
  proof (cases "filename \<in> remaining")
    case False
    with Cons.prems have "get_mirrors_loop resolve db_dir db_files remaining acc = Inr mirrors"
      by simp
    then show ?thesis using Cons.prems(2) by (rule Cons.IH)
  next
    case True
    then obtain r where r: "resolve (''table:'' @ filename) = Inr r"
      using Cons.prems(1) by (cases "resolve (''table:'' @ filename)") auto
    show ?thesis
    proof (cases "\<exists>n. r = Some n \<and> n \<noteq> [] \<and> n \<in> remaining - {filename}")
      case False
      with True r Cons.prems(1)
      have "get_mirrors_loop resolve db_dir db_files (remaining - {filename}) acc = Inr mirrors"
        by (auto split: option.splits if_splits)
      from Cons.IH [OF this Cons.prems(2)] show ?thesis by auto
    next
      case yes: True
      then obtain n where n: "r = Some n" "n \<noteq> []" "n \<in> remaining" "n \<noteq> filename"
        by auto
      let ?acc = "acc @ [(table_uri db_dir filename, table_uri db_dir n)]"
      from True r n Cons.prems(1)
      have "get_mirrors_loop resolve db_dir db_files (remaining - {filename} - {n}) ?acc
            = Inr mirrors"
        by simp
      from Cons.IH [OF this Cons.prems(2)] show ?thesis using r n True by auto
    qed
  qed
qed

text \<open>
  What the loop of \<^verbatim>\<open>get_mirrors\<close> returns extends the pairs it started with, and each
  pair it adds joins two remaining names, the base one that \<open>resolve\<close> maps to the mirror.
\<close>

lemma get_mirrors_loop_extends:
  "get_mirrors_loop resolve db_dir db_files remaining acc = Inr mirrors \<Longrightarrow>
   \<exists>new. mirrors = acc @ new \<and>
     (\<forall>p\<in>set new. \<exists>f n. p = (table_uri db_dir f, table_uri db_dir n) \<and>
        resolve (''table:'' @ f) = Inr (Some n) \<and> f \<in> remaining \<and> n \<in> remaining)"
proof (induction db_files arbitrary: remaining acc)
  case Nil
  then show ?case by simp
next
  case (Cons filename db_files)
  show ?case
  proof (cases "filename \<in> remaining")
    case False
    with Cons.prems have "get_mirrors_loop resolve db_dir db_files remaining acc = Inr mirrors"
      by simp
    then show ?thesis by (rule Cons.IH)
  next
    case True
    then obtain r where r: "resolve (''table:'' @ filename) = Inr r"
      using Cons.prems by (cases "resolve (''table:'' @ filename)") auto
    show ?thesis
    proof (cases "\<exists>n. r = Some n \<and> n \<noteq> [] \<and> n \<in> remaining - {filename}")
      case False
      with True r Cons.prems
      have "get_mirrors_loop resolve db_dir db_files (remaining - {filename}) acc = Inr mirrors"
        by (auto split: option.splits if_splits)
      from Cons.IH [OF this] show ?thesis by fastforce
    next
      case yes: True
      then obtain n where n: "r = Some n" "n \<noteq> []" "n \<in> remaining" "n \<noteq> filename"
        by auto
      let ?pair = "(table_uri db_dir filename, table_uri db_dir n)"
      from True r n Cons.prems
      have "get_mirrors_loop resolve db_dir db_files (remaining - {filename} - {n})
              (acc @ [?pair]) = Inr mirrors"
        by simp
      from Cons.IH [OF this] obtain new where new: "mirrors = (acc @ [?pair]) @ new"
        "\<forall>p\<in>set new. \<exists>f n'. p = (table_uri db_dir f, table_uri db_dir n') \<and>
           resolve (''table:'' @ f) = Inr (Some n') \<and>
           f \<in> remaining - {filename} - {n} \<and> n' \<in> remaining - {filename} - {n}"
        by blast
      have "mirrors = acc @ (?pair # new)" using new(1) by simp
      moreover have "\<forall>p\<in>set (?pair # new). \<exists>f n'. p = (table_uri db_dir f, table_uri db_dir n') \<and>
           resolve (''table:'' @ f) = Inr (Some n') \<and> f \<in> remaining \<and> n' \<in> remaining"
        using new(2) r n True by fastforce
      ultimately show ?thesis by blast
    qed
  qed
qed

text \<open>The loop of \<^verbatim>\<open>get_mirrors\<close> returns when \<open>resolve\<close> raises for none of the names.\<close>

lemma get_mirrors_loop_returns:
  "\<forall>f\<in>set db_files. \<not> isl (resolve (''table:'' @ f)) \<Longrightarrow>
   \<not> isl (get_mirrors_loop resolve db_dir db_files remaining acc)"
proof (induction db_files arbitrary: remaining acc)
  case Nil
  then show ?case by simp
next
  case (Cons filename db_files)
  then obtain r where r: "resolve (''table:'' @ filename) = Inr r"
    by (cases "resolve (''table:'' @ filename)") auto
  from Cons.prems have rest: "\<forall>f\<in>set db_files. \<not> isl (resolve (''table:'' @ f))" by simp
  show ?case
    using r Cons.IH [OF rest] by (auto split: option.splits)
qed

text \<open>The failure count the loop of \<^verbatim>\<open>main\<close> returns counts the mismatches.\<close>

lemma main_loop_count:
  "main_loop compare_uri mirrors failure_count = (t, Inr F) \<Longrightarrow>
   F = failure_count + length (filter (signals_mismatch compare_uri) mirrors)"
proof (induction mirrors arbitrary: failure_count t)
  case Nil
  then show ?case by simp
next
  case (Cons item mirrors)
  show ?case
  proof (cases "snd (compare_uri item)")
    case (Returns v)
    with Cons.prems obtain t' where "main_loop compare_uri mirrors failure_count = (t', Inr F)"
      by (auto split: prod.splits)
    from Cons.IH [OF this] Returns show ?thesis by (simp add: signals_mismatch_def)
  next
    case (SystemExit code)
    show ?thesis
    proof (cases "code = Some 0")
      case True
      with SystemExit Cons.prems obtain t' where
        "main_loop compare_uri mirrors failure_count = (t', Inr F)"
        by (auto split: prod.splits)
      from Cons.IH [OF this] SystemExit True show ?thesis by (simp add: signals_mismatch_def)
    next
      case False
      with SystemExit Cons.prems obtain t' where
        "main_loop compare_uri mirrors (failure_count + 1) = (t', Inr F)"
        by (auto split: prod.splits)
      from Cons.IH [OF this] SystemExit False show ?thesis by (simp add: signals_mismatch_def)
    qed
  next
    case (Raised e)
    with Cons.prems show ?thesis by simp
  qed
qed

lemma main_loop_events_aux:
  "main_loop compare_uri mirrors failure_count = (t, r) \<Longrightarrow>
   \<forall>e\<in>set t. is_validation_event e"
proof (induction mirrors arbitrary: failure_count t r)
  case Nil
  then show ?case by simp
next
  case (Cons item mirrors)
  obtain t0 r0 where s0: "main_loop compare_uri mirrors failure_count = (t0, r0)"
    by (cases "main_loop compare_uri mirrors failure_count") simp
  obtain t1 r1 where s1: "main_loop compare_uri mirrors (failure_count + 1) = (t1, r1)"
    by (cases "main_loop compare_uri mirrors (failure_count + 1)") simp
  have v0: "\<forall>e\<in>set t0. is_validation_event e" using s0 by (rule Cons.IH)
  have v1: "\<forall>e\<in>set t1. is_validation_event e" using s1 by (rule Cons.IH)
  show ?case
  proof (cases "snd (compare_uri item)")
    case (Returns v)
    with Cons.prems s0 have "t = Compare (fst item) (snd item) # t0" by auto
    with v0 show ?thesis by (simp add: is_validation_event_def)
  next
    case (SystemExit code)
    with Cons.prems s0 s1 have
      "t = Compare (fst item) (snd item) # t0 \<or>
       (\<exists>l. t = Compare (fst item) (snd item) # Print l # t1)"
      by (auto split: if_splits)
    with v0 v1 show ?thesis by (auto simp: is_validation_event_def)
  next
    case (Raised e)
    with Cons.prems have "t = [Compare (fst item) (snd item)]" by auto
    then show ?thesis by (simp add: is_validation_event_def)
  qed
qed

lemma main_loop_events:
  "e \<in> set (fst (main_loop compare_uri mirrors failure_count)) \<Longrightarrow> is_validation_event e"
  using main_loop_events_aux [of compare_uri mirrors failure_count]
  by (cases "main_loop compare_uri mirrors failure_count") auto

text \<open>The text the comparison utility writes has no influence on what the loop does.\<close>

lemma main_loop_ignores_text:
  "main_loop (\<lambda>item. (text item, snd (compare_uri item))) mirrors failure_count =
   main_loop compare_uri mirrors failure_count"
  by (induction mirrors arbitrary: failure_count) (simp_all split: ending.splits)

lemma get_wiredtiger_db_files_events:
  "e \<in> set (fst (get_wiredtiger_db_files connection)) \<Longrightarrow> is_scan_event e"
  by (auto simp: get_wiredtiger_db_files_def is_scan_event_def split: option.splits sum.splits)

lemma get_mirrors_events:
  "e \<in> set (fst (get_mirrors connection db_dir db_files)) \<Longrightarrow> is_scan_event e"
  by (auto simp: get_mirrors_def is_scan_event_def split: sum.splits)

text \<open>What \<^verbatim>\<open>main\<close> does in a run whose scan, pair collection and validation return.\<close>

lemma main_completes:
  assumes "length sysargs = 1"
    and "wiredtiger_open w (sysargs ! 0) = Inr connection"
    and "snd (get_wiredtiger_db_files connection) = Inr db_files"
    and "snd (get_mirrors connection (sysargs ! 0) db_files) = Inr mirrors"
    and "snd (main_loop (wiredtiger_compare_uri w) mirrors 0) = Inr F"
  shows "main sysargs w =
    (Connection_open (sysargs ! 0) # fst (get_wiredtiger_db_files connection) @
       fst (get_mirrors connection (sysargs ! 0) db_files) @ [Connection_close] @
       fst (main_loop (wiredtiger_compare_uri w) mirrors 0) @
       [Print (if F = 0
          then ''Successfully validated '' @ str_nat (length mirrors) @
               '' table mirrors in database directory '' @ [squote] @ sysargs ! 0 @
               [squote] @ ''.''
          else ''Mirrored table validation failed for '' @ str_nat F @ '' of '' @
               str_nat (length mirrors) @
               '' table mirrors in database directory '' @ [squote] @ sysargs ! 0 @
               [squote] @ ''.'')],
     Exit (if F > 0 then 1 else 0))"
proof -
  obtain t1 where s1: "get_wiredtiger_db_files connection = (t1, Inr db_files)"
    using assms(3) by (cases "get_wiredtiger_db_files connection") simp
  obtain t2 where s2: "get_mirrors connection (sysargs ! 0) db_files = (t2, Inr mirrors)"
    using assms(4) by (cases "get_mirrors connection (sysargs ! 0) db_files") simp
  obtain t3 where s3: "main_loop (wiredtiger_compare_uri w) mirrors 0 = (t3, Inr F)"
    using assms(5) by (cases "main_loop (wiredtiger_compare_uri w) mirrors 0") simp
  show ?thesis
    using assms(1,2) s1 s2 s3 by (simp add: main_def Let_def)
qed

text \<open>What \<^verbatim>\<open>main\<close> does in a run whose scan and pair collection return.\<close>

lemma main_scanned:
  assumes "length sysargs = 1"
    and "wiredtiger_open w (sysargs ! 0) = Inr connection"
    and "snd (get_wiredtiger_db_files connection) = Inr db_files"
    and "snd (get_mirrors connection (sysargs ! 0) db_files) = Inr mirrors"
  shows "\<exists>validation. fst (main sysargs w) =
    [Connection_open (sysargs ! 0)] @ (fst (get_wiredtiger_db_files connection) @
       fst (get_mirrors connection (sysargs ! 0) db_files)) @ [Connection_close] @ validation \<and>
    (\<forall>e\<in>set validation. is_validation_event e)"
proof -
  obtain t1 where s1: "get_wiredtiger_db_files connection = (t1, Inr db_files)"
    using assms(3) by (cases "get_wiredtiger_db_files connection") simp
  obtain t2 where s2: "get_mirrors connection (sysargs ! 0) db_files = (t2, Inr mirrors)"
    using assms(4) by (cases "get_mirrors connection (sysargs ! 0) db_files") simp
  obtain t3 r where s3: "main_loop (wiredtiger_compare_uri w) mirrors 0 = (t3, r)"
    by (cases "main_loop (wiredtiger_compare_uri w) mirrors 0") simp
  have v: "\<forall>e\<in>set t3. is_validation_event e"
    using s3 by (rule main_loop_events_aux)
  show ?thesis
  proof (cases r)
    case (Inl e)
    then have "fst (main sysargs w) =
        [Connection_open (sysargs ! 0)] @ (t1 @ t2) @ [Connection_close] @ t3"
      using assms(1,2) s1 s2 s3 by (simp add: main_def Let_def)
    with v s1 s2 show ?thesis by simp
  next
    case (Inr F)
    then obtain l where "fst (main sysargs w) =
        [Connection_open (sysargs ! 0)] @ (t1 @ t2) @ [Connection_close] @ (t3 @ [Print l])"
      using assms(1,2) s1 s2 s3 by (simp add: main_def Let_def)
    moreover have "\<forall>e\<in>set (t3 @ [Print l]). is_validation_event e"
      using v by (simp add: is_validation_event_def)
    ultimately show ?thesis using s1 s2 by simp
  qed
qed

subsection \<open>\<^verbatim>\<open>get_mirror_file\<close>: metadata that does not parse\<close>

text \<open>
  When a record is found and holds a quoted application-metadata substring, a
  \<^verbatim>\<open>ValueError\<close> leaves \<^verbatim>\<open>get_mirror_file\<close> exactly when some comma-separated element
  of the first such substring does not split on \<^verbatim>\<open>=\<close> into two parts. A record with no
  such substring gives \<^verbatim>\<open>None\<close>.
\<close>

lemma get_mirror_file_ValueError_iff:
  "metadata_cursor filename = Value metadata \<Longrightarrow>
   (findall metadata = [] \<longrightarrow> get_mirror_file metadata_cursor filename = Inr None) \<and>
   (\<forall>r0 rs. findall metadata = r0 # rs \<longrightarrow>
      (get_mirror_file metadata_cursor filename = Inl ''ValueError'') =
      (\<exists>element\<in>set (split_on CHR '','' r0). length (split_on CHR ''='' element) \<noteq> 2))"
proof (intro conjI allI impI)
  assume v: "metadata_cursor filename = Value metadata" and "findall metadata = []"
  then show "get_mirror_file metadata_cursor filename = Inr None"
    by (simp add: get_mirror_file_def)
next
  fix r0 rs
  assume v: "metadata_cursor filename = Value metadata" and f: "findall metadata = r0 # rs"
  show "(get_mirror_file metadata_cursor filename = Inl ''ValueError'') =
        (\<exists>element\<in>set (split_on CHR '','' r0). length (split_on CHR ''='' element) \<noteq> 2)"
  proof (cases "unpack_elements (split_on CHR '','' r0)")
    case (Inl e)
    then have "get_mirror_file metadata_cursor filename = Inl e"
      using v f by (simp add: get_mirror_file_def)
    with Inl show ?thesis by (auto simp: unpack_elements_Inl)
  next
    case (Inr kvs)
    then have "get_mirror_file metadata_cursor filename \<noteq> Inl ''ValueError''"
      using v f by (auto simp: get_mirror_file_def Let_def split: option.splits list.splits)
    moreover have
      "\<not> (\<exists>element\<in>set (split_on CHR '','' r0). length (split_on CHR ''='' element) \<noteq> 2)"
      using Inr unpack_elements_Inl [of "split_on CHR '','' r0" "''ValueError''"] by auto
    ultimately show ?thesis by simp
  qed
qed

text \<open>
  C1. Application metadata that does not parse should give \<^verbatim>\<open>None\<close>, as the comment
  of \<^verbatim>\<open>get_mirror_file\<close> says of every file that has no mirror. The code raises
  \<^verbatim>\<open>ValueError\<close> instead: on an element without \<^verbatim>\<open>=\<close>, on an element with two
  \<^verbatim>\<open>=\<close>, and on the empty quoted string \<^verbatim>\<open>app_metadata=""\<close>, whose only element
  is empty.
\<close>

theorem get_mirror_file_malformed_raises:
  "get_mirror_file (\<lambda>key. Value malformed_metadata) ''table:orders'' = Inl ''ValueError'' \<and>
   get_mirror_file (\<lambda>key. Value (''app_metadata='' @ [dquote] @ ''a=b=c'' @ [dquote]))
     ''table:orders'' = Inl ''ValueError'' \<and>
   get_mirror_file (\<lambda>key. Value (''app_metadata='' @ [dquote, dquote])) ''table:orders''
     = Inl ''ValueError''"
  by code_simp

subsection \<open>\<^verbatim>\<open>get_mirror_file\<close>: a lookup that raises\<close>

text \<open>
  C10. When the lookup of the key raises an exception whose class is not named
  \<^verbatim>\<open>KeyError\<close>, \<^verbatim>\<open>get_mirror_file\<close> neither lets that exception through nor returns
  \<^verbatim>\<open>None\<close>: it raises \<^verbatim>\<open>UnboundLocalError\<close>.
\<close>

theorem get_mirror_file_unbound_local:
  "metadata_cursor filename = Raises e \<Longrightarrow> e \<noteq> ''KeyError'' \<Longrightarrow>
   get_mirror_file metadata_cursor filename = Inl ''UnboundLocalError''"
  by (simp add: get_mirror_file_def)

text \<open>Witness for C10: a lookup that raises \<^verbatim>\<open>WiredTigerError\<close>.\<close>

theorem get_mirror_file_unbound_local_witness:
  "get_mirror_file (\<lambda>key. Raises ''WiredTigerError'') ''table:orders''
   = Inl ''UnboundLocalError''"
  using get_mirror_file_unbound_local
    [of "\<lambda>key. Raises ''WiredTigerError''" "''table:orders''" "''WiredTigerError''"]
  by simp

subsection \<open>\<^verbatim>\<open>get_mirrors\<close>\<close>

text \<open>
  C2, as amended. A table whose own metadata lacks \<^verbatim>\<open>workgen_dynamic_table=true\<close> or
  lacks a \<^verbatim>\<open>workgen_table_mirror\<close> entry is the base side of no emitted pair. (It can
  be the mirror side: only the metadata of the base is read.)
\<close>

theorem lacking_table_never_base:
  "lacks_mirror_entry (lookup connection (''table:'' @ T)) \<Longrightarrow>
   snd (get_mirrors connection db_dir db_files) = Inr mirrors \<Longrightarrow>
   table_uri db_dir T \<notin> fst ` set mirrors"
proof
  assume lacks: "lacks_mirror_entry (lookup connection (''table:'' @ T))"
    and run: "snd (get_mirrors connection db_dir db_files) = Inr mirrors"
    and "table_uri db_dir T \<in> fst ` set mirrors"
  then obtain m where bm: "(table_uri db_dir T, m) \<in> set mirrors" by auto
  from run have loop:
    "get_mirrors_loop (get_mirror_file (lookup connection)) db_dir db_files (set db_files) []
     = Inr mirrors"
    by (auto simp: get_mirrors_def split: sum.splits)
  from get_mirrors_loop_origin [OF loop bm]
  obtain n where "get_mirror_file (lookup connection) (''table:'' @ T) = Inr (Some n)"
    by auto
  then have "\<not> lacks_mirror_entry (lookup connection (''table:'' @ T))"
    by (rule get_mirror_file_Some_has_entry)
  with lacks show False by simp
qed

text \<open>
  Witness for C2: \<^verbatim>\<open>orders_mirror\<close> has no application metadata and is not the base of
  the pair the catalog yields.
\<close>

theorem lacking_table_never_base_witness:
  "lacks_mirror_entry (lookup mirrored_catalog (''table:'' @ ''orders_mirror'')) \<and>
   snd (get_mirrors mirrored_catalog ''db'' [''orders'', ''orders_mirror''])
     = Inr [(''db/table:orders'', ''db/table:orders_mirror'')] \<and>
   table_uri ''db'' ''orders_mirror''
     \<notin> fst ` set [(''db/table:orders'', ''db/table:orders_mirror'')]"
proof -
  have l: "lacks_mirror_entry (lookup mirrored_catalog (''table:'' @ ''orders_mirror''))"
    by code_simp
  have r: "snd (get_mirrors mirrored_catalog ''db'' [''orders'', ''orders_mirror''])
     = Inr [(''db/table:orders'', ''db/table:orders_mirror'')]"
    by code_simp
  from lacking_table_never_base [OF l r] l r show ?thesis by blast
qed

text \<open>
  Counterexample to C2 as stated: \<^verbatim>\<open>orders_mirror\<close> has no application metadata, and
  it is the mirror side of the emitted pair.
\<close>

theorem lacking_table_as_mirror_counterexample:
  "lacks_mirror_entry (lookup mirrored_catalog ''table:orders_mirror'') \<and>
   table_uri ''db'' ''orders_mirror''
     \<in> snd ` set (projr (snd (get_mirrors mirrored_catalog ''db'' [''orders'', ''orders_mirror''])))"
  by code_simp

text \<open>
  C3. Whatever the table list and the mirror lookup, no side appears twice in the pair
  list the loop of \<^verbatim>\<open>get_mirrors\<close> produces, in either position, and no pair has
  equal sides. The sides are locations, and two names have the same location only when
  they are equal.
\<close>

theorem get_mirrors_exclusive:
  "get_mirrors_loop resolve db_dir db_files (set db_files) [] = Inr mirrors \<Longrightarrow>
   distinct (pair_sides mirrors) \<and> (\<forall>(base, mirror)\<in>set mirrors. base \<noteq> mirror)"
proof -
  assume run: "get_mirrors_loop resolve db_dir db_files (set db_files) [] = Inr mirrors"
  have d: "distinct (pair_sides mirrors)"
    by (rule get_mirrors_loop_distinct [OF run]) (simp_all add: pair_sides_def)
  have "base \<noteq> mirror" if "(base, mirror) \<in> set mirrors" for base mirror
  proof -
    from that obtain xs ys where "mirrors = xs @ (base, mirror) # ys"
      by (auto simp: in_set_conv_decomp)
    with d show ?thesis by (simp add: pair_sides_def)
  qed
  with d show ?thesis by auto
qed

text \<open>Witness for C3: the catalog with \<^verbatim>\<open>orders\<close> and its mirror, listed twice over.\<close>

theorem get_mirrors_exclusive_witness:
  "get_mirrors_loop (get_mirror_file (lookup mirrored_catalog)) ''db''
     [''orders'', ''orders_mirror'', ''orders''] (set [''orders'', ''orders_mirror'', ''orders'']) []
     = Inr [(''db/table:orders'', ''db/table:orders_mirror'')] \<and>
   distinct (pair_sides [(''db/table:orders'', ''db/table:orders_mirror'')])"
proof -
  have r: "get_mirrors_loop (get_mirror_file (lookup mirrored_catalog)) ''db''
     [''orders'', ''orders_mirror'', ''orders''] (set [''orders'', ''orders_mirror'', ''orders'']) []
     = Inr [(''db/table:orders'', ''db/table:orders_mirror'')]"
    by code_simp
  from get_mirrors_exclusive [OF r] r show ?thesis by blast
qed

text \<open>
  C4. Let the mirror name resolved for an entry be absent from the remaining set (it never
  was in the catalog, or an earlier pair consumed it). Then the loop goes on with the
  entries that follow, with no pair added and no error; what it returns starts with the
  pairs collected before, and the entry is a side of none of the pairs added after them;
  it does return when \<open>resolve\<close> raises for none of the entries that follow. When the
  entry after it has its mirror in the remaining set, that pair is the next one emitted.
  In the catalog where \<^verbatim>\<open>orders\<close> lost its mirror and \<^verbatim>\<open>stock\<close> names the mirror that
  \<^verbatim>\<open>items\<close> already took, the pairs of \<^verbatim>\<open>items\<close> and of \<^verbatim>\<open>users\<close> are emitted and
  nothing else. The catalog that holds \<^verbatim>\<open>orders\<close> alone yields no pair and the process
  exits with status 0.
\<close>

theorem orphan_entry_skipped:
  "(filename \<in> remaining \<and> resolve (''table:'' @ filename) = Inr (Some m) \<and>
    m \<notin> remaining - {filename} \<longrightarrow>
      get_mirrors_loop resolve db_dir (filename # db_files) remaining mirrors =
      get_mirrors_loop resolve db_dir db_files (remaining - {filename}) mirrors \<and>
      (\<forall>result. get_mirrors_loop resolve db_dir (filename # db_files) remaining mirrors
                 = Inr result \<longrightarrow>
         take (length mirrors) result = mirrors \<and>
         (\<forall>p\<in>set (drop (length mirrors) result).
            fst p \<noteq> table_uri db_dir filename \<and> snd p \<noteq> table_uri db_dir filename)) \<and>
      ((\<forall>f\<in>set db_files. \<not> isl (resolve (''table:'' @ f))) \<longrightarrow>
         \<not> isl (get_mirrors_loop resolve db_dir (filename # db_files) remaining mirrors))) \<and>
   (filename \<in> remaining \<and> resolve (''table:'' @ filename) = Inr (Some m) \<and>
    m \<notin> remaining - {filename} \<and>
    g \<in> remaining - {filename} \<and> resolve (''table:'' @ g) = Inr (Some n) \<and> n \<noteq> [] \<and>
    n \<in> remaining - {filename} - {g} \<longrightarrow>
      get_mirrors_loop resolve db_dir (filename # g # rest) remaining mirrors =
      get_mirrors_loop resolve db_dir rest (remaining - {filename} - {g} - {n})
        (mirrors @ [(table_uri db_dir g, table_uri db_dir n)]) \<and>
      (\<forall>result. get_mirrors_loop resolve db_dir (filename # g # rest) remaining mirrors
                 = Inr result \<longrightarrow>
         length mirrors < length result \<and>
         result ! length mirrors = (table_uri db_dir g, table_uri db_dir n))) \<and>
   snd (get_wiredtiger_db_files stranded_catalog)
     = Inr [''items'', ''items_mirror'', ''orders'', ''stock'', ''users'', ''users_mirror''] \<and>
   snd (get_mirrors stranded_catalog ''db''
          [''items'', ''items_mirror'', ''orders'', ''stock'', ''users'', ''users_mirror''])
     = Inr [(''db/table:items'', ''db/table:items_mirror''),
            (''db/table:users'', ''db/table:users_mirror'')] \<and>
   snd (get_mirrors orphan_catalog ''db'' [''orders'']) = Inr [] \<and>
   main [''db''] (example_world orphan_catalog [] (Returns None)) =
     ([Connection_open ''db'', Session_open, Cursor_open, Cursor_close, Session_close,
       Session_open, Cursor_open, Cursor_close, Session_close, Connection_close,
       Print (''Successfully validated 0 table mirrors in database directory '' @
              [squote] @ ''db'' @ [squote] @ ''.'')],
      Exit 0)"
proof -
  have step: "get_mirrors_loop resolve db_dir (filename # fs) remaining mirrors =
      get_mirrors_loop resolve db_dir fs (remaining - {filename}) mirrors"
    if "filename \<in> remaining \<and> resolve (''table:'' @ filename) = Inr (Some m) \<and>
        m \<notin> remaining - {filename}" for fs
    using that by auto
  have skipped: "take (length mirrors) result = mirrors \<and>
         (\<forall>p\<in>set (drop (length mirrors) result).
            fst p \<noteq> table_uri db_dir filename \<and> snd p \<noteq> table_uri db_dir filename)"
    if a: "filename \<in> remaining \<and> resolve (''table:'' @ filename) = Inr (Some m) \<and>
        m \<notin> remaining - {filename}"
      and run: "get_mirrors_loop resolve db_dir (filename # db_files) remaining mirrors
                = Inr result"
    for result
  proof -
    from run step [OF a] have
      "get_mirrors_loop resolve db_dir db_files (remaining - {filename}) mirrors = Inr result"
      by simp
    from get_mirrors_loop_extends [OF this] obtain new where new: "result = mirrors @ new"
      "\<forall>p\<in>set new. \<exists>f n. p = (table_uri db_dir f, table_uri db_dir n) \<and>
         resolve (''table:'' @ f) = Inr (Some n) \<and>
         f \<in> remaining - {filename} \<and> n \<in> remaining - {filename}"
      by blast
    have "\<forall>p\<in>set new. fst p \<noteq> table_uri db_dir filename \<and> snd p \<noteq> table_uri db_dir filename"
      using new(2) by fastforce
    with new(1) show ?thesis by simp
  qed
  have returns: "\<not> isl (get_mirrors_loop resolve db_dir (filename # db_files) remaining mirrors)"
    if a: "filename \<in> remaining \<and> resolve (''table:'' @ filename) = Inr (Some m) \<and>
        m \<notin> remaining - {filename}"
      and ok: "\<forall>f\<in>set db_files. \<not> isl (resolve (''table:'' @ f))"
    using step [OF a] get_mirrors_loop_returns [OF ok, of db_dir "remaining - {filename}" mirrors]
    by simp
  have part1: "filename \<in> remaining \<and> resolve (''table:'' @ filename) = Inr (Some m) \<and>
    m \<notin> remaining - {filename} \<longrightarrow>
      get_mirrors_loop resolve db_dir (filename # db_files) remaining mirrors =
      get_mirrors_loop resolve db_dir db_files (remaining - {filename}) mirrors \<and>
      (\<forall>result. get_mirrors_loop resolve db_dir (filename # db_files) remaining mirrors
                 = Inr result \<longrightarrow>
         take (length mirrors) result = mirrors \<and>
         (\<forall>p\<in>set (drop (length mirrors) result).
            fst p \<noteq> table_uri db_dir filename \<and> snd p \<noteq> table_uri db_dir filename)) \<and>
      ((\<forall>f\<in>set db_files. \<not> isl (resolve (''table:'' @ f))) \<longrightarrow>
         \<not> isl (get_mirrors_loop resolve db_dir (filename # db_files) remaining mirrors))"
    using step skipped returns by blast
  have part2: "filename \<in> remaining \<and> resolve (''table:'' @ filename) = Inr (Some m) \<and>
    m \<notin> remaining - {filename} \<and>
    g \<in> remaining - {filename} \<and> resolve (''table:'' @ g) = Inr (Some n) \<and> n \<noteq> [] \<and>
    n \<in> remaining - {filename} - {g} \<longrightarrow>
      get_mirrors_loop resolve db_dir (filename # g # rest) remaining mirrors =
      get_mirrors_loop resolve db_dir rest (remaining - {filename} - {g} - {n})
        (mirrors @ [(table_uri db_dir g, table_uri db_dir n)]) \<and>
      (\<forall>result. get_mirrors_loop resolve db_dir (filename # g # rest) remaining mirrors
                 = Inr result \<longrightarrow>
         length mirrors < length result \<and>
         result ! length mirrors = (table_uri db_dir g, table_uri db_dir n))"
  proof
    let ?pair = "(table_uri db_dir g, table_uri db_dir n)"
    assume b: "filename \<in> remaining \<and> resolve (''table:'' @ filename) = Inr (Some m) \<and>
      m \<notin> remaining - {filename} \<and>
      g \<in> remaining - {filename} \<and> resolve (''table:'' @ g) = Inr (Some n) \<and> n \<noteq> [] \<and>
      n \<in> remaining - {filename} - {g}"
    then have a: "filename \<in> remaining \<and> resolve (''table:'' @ filename) = Inr (Some m) \<and>
      m \<notin> remaining - {filename}"
      by simp
    from b have "get_mirrors_loop resolve db_dir (g # rest) (remaining - {filename}) mirrors =
         get_mirrors_loop resolve db_dir rest (remaining - {filename} - {g} - {n})
           (mirrors @ [?pair])"
      by auto
    with step [OF a, of "g # rest"] have next_pair:
      "get_mirrors_loop resolve db_dir (filename # g # rest) remaining mirrors =
         get_mirrors_loop resolve db_dir rest (remaining - {filename} - {g} - {n})
           (mirrors @ [?pair])"
      by simp
    have "length mirrors < length result \<and> result ! length mirrors = ?pair"
      if "get_mirrors_loop resolve db_dir (filename # g # rest) remaining mirrors = Inr result"
      for result
    proof -
      from that next_pair have
        "get_mirrors_loop resolve db_dir rest (remaining - {filename} - {g} - {n})
           (mirrors @ [?pair]) = Inr result"
        by simp
      from get_mirrors_loop_extends [OF this] obtain new where
        "result = (mirrors @ [?pair]) @ new"
        by blast
      then show ?thesis by (simp add: nth_append)
    qed
    with next_pair show
      "get_mirrors_loop resolve db_dir (filename # g # rest) remaining mirrors =
         get_mirrors_loop resolve db_dir rest (remaining - {filename} - {g} - {n})
           (mirrors @ [?pair]) \<and>
       (\<forall>result. get_mirrors_loop resolve db_dir (filename # g # rest) remaining mirrors
                    = Inr result \<longrightarrow>
            length mirrors < length result \<and> result ! length mirrors = ?pair)"
      by blast
  qed
  have scan: "snd (get_wiredtiger_db_files stranded_catalog)
     = Inr [''items'', ''items_mirror'', ''orders'', ''stock'', ''users'', ''users_mirror'']"
    by code_simp
  have stranded: "snd (get_mirrors stranded_catalog ''db''
          [''items'', ''items_mirror'', ''orders'', ''stock'', ''users'', ''users_mirror''])
     = Inr [(''db/table:items'', ''db/table:items_mirror''),
            (''db/table:users'', ''db/table:users_mirror'')]"
    by code_simp
  have orphan: "snd (get_mirrors orphan_catalog ''db'' [''orders'']) = Inr []"
    by code_simp
  have exit: "main [''db''] (example_world orphan_catalog [] (Returns None)) =
     ([Connection_open ''db'', Session_open, Cursor_open, Cursor_close, Session_close,
       Session_open, Cursor_open, Cursor_close, Session_close, Connection_close,
       Print (''Successfully validated 0 table mirrors in database directory '' @
              [squote] @ ''db'' @ [squote] @ ''.'')],
      Exit 0)"
    by code_simp
  show ?thesis
    by (intro conjI part1 part2 scan stranded orphan exit)
qed

text \<open>
  Witness for C4, in the catalog with stranded tables. When the loop reaches \<^verbatim>\<open>stock\<close>
  the pair of \<^verbatim>\<open>items\<close> is collected and \<^verbatim>\<open>stock\<close>, \<^verbatim>\<open>users\<close> and
  \<^verbatim>\<open>users_mirror\<close> remain: the mirror \<^verbatim>\<open>stock\<close> names was consumed by that pair, no pair
  is emitted for \<^verbatim>\<open>stock\<close>, and the next entry \<^verbatim>\<open>users\<close> is paired with its mirror.
\<close>

theorem orphan_entry_skipped_witness:
  "(''stock'' \<in> {''stock'', ''users'', ''users_mirror''} \<and>
    get_mirror_file (lookup stranded_catalog) (''table:'' @ ''stock'')
      = Inr (Some ''items_mirror'') \<and>
    ''items_mirror'' \<notin> {''stock'', ''users'', ''users_mirror''} - {''stock''} \<and>
    ''users'' \<in> {''stock'', ''users'', ''users_mirror''} - {''stock''} \<and>
    get_mirror_file (lookup stranded_catalog) (''table:'' @ ''users'')
      = Inr (Some ''users_mirror'') \<and>
    ''users_mirror'' \<noteq> [] \<and>
    ''users_mirror'' \<in> {''stock'', ''users'', ''users_mirror''} - {''stock''} - {''users''}) \<and>
   get_mirrors_loop (get_mirror_file (lookup stranded_catalog)) ''db''
     (''stock'' # ''users'' # [''users_mirror'']) {''stock'', ''users'', ''users_mirror''}
     [(''db/table:items'', ''db/table:items_mirror'')]
   = Inr [(''db/table:items'', ''db/table:items_mirror''),
          (''db/table:users'', ''db/table:users_mirror'')]"
proof -
  let ?resolve = "get_mirror_file (lookup stranded_catalog)"
  let ?remaining = "{''stock'', ''users'', ''users_mirror''}"
  let ?mirrors = "[(''db/table:items'', ''db/table:items_mirror'')]"
  have r: "?resolve (''table:'' @ ''stock'') = Inr (Some ''items_mirror'')"
    by code_simp
  have u: "?resolve (''table:'' @ ''users'') = Inr (Some ''users_mirror'')"
    by code_simp
  have i: "''stock'' \<in> ?remaining" by simp
  have j: "''items_mirror'' \<notin> ?remaining - {''stock''}" by simp
  have k: "''users'' \<in> ?remaining - {''stock''}" by simp
  have l: "''users_mirror'' \<noteq> []" by simp
  have m: "''users_mirror'' \<in> ?remaining - {''stock''} - {''users''}" by simp
  have hyp: "''stock'' \<in> ?remaining \<and> ?resolve (''table:'' @ ''stock'') = Inr (Some ''items_mirror'') \<and>
    ''items_mirror'' \<notin> ?remaining - {''stock''} \<and>
    ''users'' \<in> ?remaining - {''stock''} \<and>
    ?resolve (''table:'' @ ''users'') = Inr (Some ''users_mirror'') \<and>
    ''users_mirror'' \<noteq> [] \<and>
    ''users_mirror'' \<in> ?remaining - {''stock''} - {''users''}"
    by (intro conjI i r j k u l m)
  note inst = orphan_entry_skipped
    [where filename = "''stock''" and remaining = ?remaining and resolve = ?resolve
       and m = "''items_mirror''" and db_dir = "''db''" and mirrors = ?mirrors
       and g = "''users''" and n = "''users_mirror''" and rest = "[''users_mirror'']"]
  note next_pair = inst [THEN conjunct2, THEN conjunct1, THEN mp, OF hyp, THEN conjunct1]
  have last: "get_mirrors_loop ?resolve ''db'' [''users_mirror'']
      (?remaining - {''stock''} - {''users''} - {''users_mirror''})
      (?mirrors @ [(table_uri ''db'' ''users'', table_uri ''db'' ''users_mirror'')])
    = Inr [(''db/table:items'', ''db/table:items_mirror''),
           (''db/table:users'', ''db/table:users_mirror'')]"
    by (simp add: table_uri_def)
  from next_pair last have
    "get_mirrors_loop ?resolve ''db'' (''stock'' # ''users'' # [''users_mirror'']) ?remaining ?mirrors
     = Inr [(''db/table:items'', ''db/table:items_mirror''),
            (''db/table:users'', ''db/table:users_mirror'')]"
    by (rule trans)
  with hyp show ?thesis by (rule conjI)
qed

subsection \<open>\<^verbatim>\<open>get_wiredtiger_db_files\<close>\<close>




subsection \<open>\<^verbatim>\<open>main\<close>\<close>

text \<open>
  C7. With no positional argument or more than one, \<^verbatim>\<open>main\<close> prints the two lines of
  the usage message to standard output and exits with status 1; nothing else happens, so
  no connection is opened.
\<close>

theorem usage_error_exits:
  "length sysargs \<noteq> 1 \<Longrightarrow>
   main sysargs w =
     ([Print ''Usage: python3 validate_mirror_tables database_dir'',
       Print ''  database_dir is a POSIX pathname to a WiredTiger home directory''],
      Exit 1) \<and>
   (\<forall>db_dir. Connection_open db_dir \<notin> set (fst (main sysargs w)))"
  by (simp add: main_def usage_exit_def)

text \<open>Witness for C7: two positional arguments.\<close>

theorem usage_error_exits_witness:
  "length [''db'', ''other''] \<noteq> 1 \<and>
   main [''db'', ''other''] (example_world mirrored_catalog [] (Returns None)) =
     ([Print ''Usage: python3 validate_mirror_tables database_dir'',
       Print ''  database_dir is a POSIX pathname to a WiredTiger home directory''],
      Exit 1)"
proof -
  have h: "length [''db'', ''other''] \<noteq> 1" by simp
  from usage_error_exits [OF h, of "example_world mirrored_catalog [] (Returns None)"] h
  show ?thesis by blast
qed

text \<open>
  C5. In a run that completes validation, with \<open>N\<close> pairs of which \<open>F\<close> signalled a
  mismatch: when \<open>F = 0\<close> the last line printed is
  \<^verbatim>\<open>Successfully validated N table mirrors in database directory 'dir'.\<close> and the exit
  status is 0; when \<open>F > 0\<close> the last line printed is
  \<^verbatim>\<open>Mirrored table validation failed for F of N table mirrors in database directory 'dir'.\<close>
  and the exit status is 1.
\<close>

theorem main_summary_and_status:
  assumes "length sysargs = 1"
    and "wiredtiger_open w (sysargs ! 0) = Inr connection"
    and "snd (get_wiredtiger_db_files connection) = Inr db_files"
    and "snd (get_mirrors connection (sysargs ! 0) db_files) = Inr mirrors"
    and "snd (main_loop (wiredtiger_compare_uri w) mirrors 0) = Inr F"
  shows "length (filter (signals_mismatch (wiredtiger_compare_uri w)) mirrors) = F \<and>
    (F = 0 \<longrightarrow>
       last (fst (main sysargs w)) =
         Print (''Successfully validated '' @ str_nat (length mirrors) @
                '' table mirrors in database directory '' @ [squote] @ sysargs ! 0 @
                [squote] @ ''.'') \<and>
       snd (main sysargs w) = Exit 0) \<and>
    (F > 0 \<longrightarrow>
       last (fst (main sysargs w)) =
         Print (''Mirrored table validation failed for '' @ str_nat F @ '' of '' @
                str_nat (length mirrors) @
                '' table mirrors in database directory '' @ [squote] @ sysargs ! 0 @
                [squote] @ ''.'') \<and>
       snd (main sysargs w) = Exit 1)"
proof -
  obtain t3 where "main_loop (wiredtiger_compare_uri w) mirrors 0 = (t3, Inr F)"
    using assms(5) by (cases "main_loop (wiredtiger_compare_uri w) mirrors 0") simp
  from main_loop_count [OF this]
  have count: "length (filter (signals_mismatch (wiredtiger_compare_uri w)) mirrors) = F"
    by simp
  note m = main_completes [OF assms]
  have "F = 0 \<Longrightarrow> ?thesis" using m count by simp
  moreover have "F > 0 \<Longrightarrow> ?thesis" using m count by simp
  ultimately show ?thesis by blast
qed

text \<open>
  Witness for C5: one pair whose comparison exits with code 1; the run prints the failure
  summary for 1 of 1 and exits with status 1.
\<close>

theorem main_summary_and_status_witness:
  "snd (main [''db''] (example_world mirrored_catalog ''row 3 differs'' (SystemExit (Some 1))))
     = Exit 1 \<and>
   last (fst (main [''db'']
           (example_world mirrored_catalog ''row 3 differs'' (SystemExit (Some 1))))) =
     Print (''Mirrored table validation failed for 1 of 1 table mirrors in database directory '' @
            [squote] @ ''db'' @ [squote] @ ''.'')"
proof -
  let ?w = "example_world mirrored_catalog ''row 3 differs'' (SystemExit (Some 1))"
  have h1: "length [''db''] = 1" by simp
  have h2: "wiredtiger_open ?w ([''db''] ! 0) = Inr mirrored_catalog"
    by (simp add: example_world_def)
  have h3: "snd (get_wiredtiger_db_files mirrored_catalog) = Inr [''orders'', ''orders_mirror'']"
    by code_simp
  have h4: "snd (get_mirrors mirrored_catalog ([''db''] ! 0) [''orders'', ''orders_mirror''])
            = Inr [(''db/table:orders'', ''db/table:orders_mirror'')]"
    by code_simp
  have h5: "snd (main_loop (wiredtiger_compare_uri ?w)
                   [(''db/table:orders'', ''db/table:orders_mirror'')] 0) = Inr 1"
    by (simp add: example_world_def)
  have s: "str_nat (Suc 0) = ''1''" by code_simp
  show ?thesis using main_summary_and_status [OF h1 h2 h3 h4 h5] by (simp add: s)
qed

text \<open>
  C6, as amended. In a run whose catalog scan and pair collection return, the connection
  is opened once and closed once; every session and cursor event comes before the close,
  and every comparison and every printed line comes after it. The close does not depend on
  what the validation reports.
\<close>

theorem connection_closed_before_validation:
  assumes "length sysargs = 1"
    and "wiredtiger_open w (sysargs ! 0) = Inr connection"
    and "snd (get_wiredtiger_db_files connection) = Inr db_files"
    and "snd (get_mirrors connection (sysargs ! 0) db_files) = Inr mirrors"
  shows "\<exists>scan validation.
    fst (main sysargs w) =
      [Connection_open (sysargs ! 0)] @ scan @ [Connection_close] @ validation \<and>
    (\<forall>e\<in>set scan. is_scan_event e) \<and> (\<forall>e\<in>set validation. is_validation_event e)"
proof -
  from main_scanned [OF assms] obtain validation where
    v: "fst (main sysargs w) =
      [Connection_open (sysargs ! 0)] @ (fst (get_wiredtiger_db_files connection) @
       fst (get_mirrors connection (sysargs ! 0) db_files)) @ [Connection_close] @ validation"
    "\<forall>e\<in>set validation. is_validation_event e"
    by blast
  have "\<forall>e\<in>set (fst (get_wiredtiger_db_files connection) @
       fst (get_mirrors connection (sysargs ! 0) db_files)). is_scan_event e"
    using get_wiredtiger_db_files_events get_mirrors_events by auto
  with v show ?thesis by blast
qed

text \<open>Witness for C6: a run over the catalog with one pair, whose comparison matches.\<close>

theorem connection_closed_before_validation_witness:
  "\<exists>scan validation.
    fst (main [''db''] (example_world mirrored_catalog [] (SystemExit (Some 0)))) =
      [Connection_open ([''db''] ! 0)] @ scan @ [Connection_close] @ validation \<and>
    (\<forall>e\<in>set scan. is_scan_event e) \<and> (\<forall>e\<in>set validation. is_validation_event e)"
proof -
  let ?w = "example_world mirrored_catalog [] (SystemExit (Some 0))"
  have h1: "length [''db''] = 1" by simp
  have h2: "wiredtiger_open ?w ([''db''] ! 0) = Inr mirrored_catalog"
    by (simp add: example_world_def)
  have h3: "snd (get_wiredtiger_db_files mirrored_catalog) = Inr [''orders'', ''orders_mirror'']"
    by code_simp
  have h4: "snd (get_mirrors mirrored_catalog ([''db''] ! 0) [''orders'', ''orders_mirror''])
            = Inr [(''db/table:orders'', ''db/table:orders_mirror'')]"
    by code_simp
  show ?thesis by (rule connection_closed_before_validation [OF h1 h2 h3 h4])
qed

text \<open>
  Counterexample to C6 as stated: in a run over the catalog with one pair, the comparison
  of the pair takes place after the connection is closed.
\<close>

theorem connection_closed_before_validation_counterexample:
  "Compare ''db/table:orders'' ''db/table:orders_mirror''
     \<in> set (after_close (fst (main [''db'']
              (example_world mirrored_catalog ''row 3 differs'' (SystemExit (Some 1))))))"
  by code_simp

text \<open>
  C9. The comparison of the pair writes \<^verbatim>\<open>row 3 differs\<close> and exits with code 1. The
  line printed for the pair ends with \<^verbatim>\<open>None\<close>: the text the utility wrote is not in
  it, nor anywhere else in what the run prints.
\<close>

theorem mismatch_line_shows_none:
  "fst (main [''db''] (example_world mirrored_catalog ''row 3 differs'' (SystemExit (Some 1)))) =
   [Connection_open ''db'', Session_open, Cursor_open, Cursor_close, Session_close,
    Session_open, Cursor_open, Cursor_close, Session_close, Connection_close,
    Compare ''db/table:orders'' ''db/table:orders_mirror'',
    Print (''Mirror mismatch ['' @ [squote] @ ''db/table:orders'' @ [squote] @ '', '' @
           [squote] @ ''db/table:orders_mirror'' @ [squote] @ '']: None''),
    Print (''Mirrored table validation failed for 1 of 1 table mirrors in database directory '' @
           [squote] @ ''db'' @ [squote] @ ''.'')]"
  by code_simp

end
